theory Spec2Isabelle
  imports Complex_Main
begin

section \<open>Numbers and strings\<close>

text \<open>
  The program is TypeScript; every \<^verbatim>\<open>number\<close> is modelled as a \<^typ>\<open>real\<close>, so
  arithmetic is exact: \<^verbatim>\<open>220 / 30\<close> is the fraction \<open>22 / 3\<close> and \<^verbatim>\<open>0.075\<close> is
  \<open>75 / 1000\<close>. Binary rounding of the IEEE doubles, infinities and overflow are outside
  this model. A string is a \<^typ>\<open>string\<close>.

  \<^verbatim>\<open>Math.round(x)\<close> is the integer nearest to \<open>x\<close>, a tie going up: \<open>\<lfloor>x + 1/2\<rfloor>\<close>.
\<close>

definition Math_round :: "real \<Rightarrow> real" where
  "Math_round x = of_int \<lfloor>x + 1 / 2\<rfloor>"

text \<open>
  \<^verbatim>\<open>time.split(':')\<close>: the pieces of the string between the colons; a string without a
  colon (the empty one too) is one piece.
\<close>

fun split_colon :: "string \<Rightarrow> string list" where
  "split_colon [] = [[]]"
| "split_colon (c # cs) =
     (if c = CHR '':'' then [] # split_colon cs
      else (case split_colon cs of
              [] \<Rightarrow> [[c]]
            | p # ps \<Rightarrow> (c # p) # ps))"

text \<open>
  \<^verbatim>\<open>Number(piece)\<close> on the pieces of a clock string. The pieces of an \<^verbatim>\<open>HH:mm\<close> string
  are runs of decimal digits, which \<^verbatim>\<open>Number\<close> reads in base ten; the empty piece is 0.
  Every other piece gives \<open>None\<close>: JavaScript yields \<^verbatim>\<open>NaN\<close> there, or reads a
  literal that is no clock field (a sign, a fraction, an exponent, a radix prefix,
  blanks around the digits), and the model follows neither further. The digits
  \<^verbatim>\<open>0\<close> to \<^verbatim>\<open>9\<close> are the characters with the codes 48 to 57.
\<close>

definition digit_value :: "char \<Rightarrow> nat option" where
  "digit_value c =
     (let code = (of_char c :: nat)
      in if 48 \<le> code \<and> code \<le> 57 then Some (code - 48) else None)"

fun digits_value :: "nat \<Rightarrow> string \<Rightarrow> nat option" where
  "digits_value acc [] = Some acc"
| "digits_value acc (c # cs) =
     (case digit_value c of
        None \<Rightarrow> None
      | Some d \<Rightarrow> digits_value (10 * acc + d) cs)"

definition Number :: "string \<Rightarrow> real option" where
  "Number s = map_option real (digits_value 0 s)"

section \<open>time.ts\<close>

text \<open>
  \<^verbatim>\<open>const [hours, minutes] = time.split(':').map(Number); return hours * 60 + minutes;\<close>
  With fewer than two pieces \<^verbatim>\<open>minutes\<close> is \<^verbatim>\<open>undefined\<close> and the sum is \<^verbatim>\<open>NaN\<close>:
  \<open>None\<close>. Pieces after the second are ignored.
\<close>

definition parseHourToMinutes :: "string \<Rightarrow> real option" where
  "parseHourToMinutes time =
     (case map Number (split_colon time) of
        Some hours # Some minutes # _ \<Rightarrow> Some (hours * 60 + minutes)
      | _ \<Rightarrow> None)"

text \<open>
  \<open>None\<close> is passed on: a \<^verbatim>\<open>NaN\<close> operand makes the differences and
  \<^verbatim>\<open>Math.max(0, _)\<close> \<^verbatim>\<open>NaN\<close> as well.
\<close>

definition calculateWorkedMinutes :: "string \<Rightarrow> string \<Rightarrow> real \<Rightarrow> real option" where
  "calculateWorkedMinutes entrada saida intervaloHoras =
     (case parseHourToMinutes entrada of
        None \<Rightarrow> None
      | Some entradaMinutes \<Rightarrow>
          (case parseHourToMinutes saida of
             None \<Rightarrow> None
           | Some saidaMinutes \<Rightarrow>
               (let intervaloMinutes = intervaloHoras * 60;
                    totalMinutes = saidaMinutes - entradaMinutes;
                    workedMinutes = totalMinutes - intervaloMinutes
                in Some (max 0 workedMinutes))))"

definition minutesToDecimalHours :: "real \<Rightarrow> real" where
  "minutesToDecimalHours minutes =
     (let hours = minutes / 60 in Math_round (hours * 100) / 100)"

section \<open>calculations.ts\<close>

record DailyHoursResult =
  horasNormais :: real
  horasExtra50 :: real
  horasExtra100 :: real

text \<open>
  \<^verbatim>\<open>!entrada\<close> holds of a string exactly when it is empty. A day whose clock strings do
  not parse has \<^verbatim>\<open>NaN\<close> among its fields; the model returns \<open>None\<close> for it.
\<close>

definition calculateDailyResult ::
  "string \<Rightarrow> string \<Rightarrow> real \<Rightarrow> bool \<Rightarrow> bool \<Rightarrow> real \<Rightarrow> DailyHoursResult option" where
  "calculateDailyResult entrada saida intervaloHoras ehFeriado ehFolga jornadaPadraoHoras =
     (if entrada = [] \<or> saida = [] then
        Some \<lparr>horasNormais = 0, horasExtra50 = 0, horasExtra100 = 0\<rparr>
      else
        (case calculateWorkedMinutes entrada saida intervaloHoras of
           None \<Rightarrow> None
         | Some minutosTrabalhadosTotal \<Rightarrow>
             (let horasTrabalhadasTotal = minutesToDecimalHours minutosTrabalhadosTotal in
              if ehFeriado then
                Some \<lparr>horasNormais = 0, horasExtra50 = 0, horasExtra100 = horasTrabalhadasTotal\<rparr>
              else if ehFolga then
                Some \<lparr>horasNormais = 0, horasExtra50 = horasTrabalhadasTotal, horasExtra100 = 0\<rparr>
              else if horasTrabalhadasTotal \<le> jornadaPadraoHoras then
                Some \<lparr>horasNormais = horasTrabalhadasTotal, horasExtra50 = 0, horasExtra100 = 0\<rparr>
              else
                Some \<lparr>horasNormais = jornadaPadraoHoras,
                      horasExtra50 = horasTrabalhadasTotal - jornadaPadraoHoras,
                      horasExtra100 = 0\<rparr>)))"

definition calculateDSR :: "real \<Rightarrow> real \<Rightarrow> real \<Rightarrow> real \<Rightarrow> real \<Rightarrow> real \<Rightarrow> real" where
  "calculateDSR horasExtra50Total horasExtra100Total valorHoraExtra50 valorHoraExtra100
                diasRepouso diasUteis =
     (let valorHorasExtras50 = horasExtra50Total * valorHoraExtra50;
          valorHorasExtras100 = horasExtra100Total * valorHoraExtra100;
          valorTotalHorasExtras = valorHorasExtras50 + valorHorasExtras100
      in if diasUteis = 0 \<or> diasRepouso = 0 then 0
         else (let dsr = valorTotalHorasExtras * (diasRepouso / diasUteis)
               in Math_round (dsr * 100) / 100))"

definition calculateINSS :: "real \<Rightarrow> real" where
  "calculateINSS valorBruto =
     (if valorBruto \<le> 1412.00 then valorBruto * 0.075
      else if valorBruto \<le> 2666.68 then 1412.00 * 0.075 + (valorBruto - 1412.00) * 0.09
      else if valorBruto \<le> 4000.03 then
        1412.00 * 0.075 + (2666.68 - 1412.00) * 0.09 + (valorBruto - 2666.68) * 0.12
      else if valorBruto \<le> 7786.02 then
        1412.00 * 0.075 + (2666.68 - 1412.00) * 0.09 + (4000.03 - 2666.68) * 0.12
          + (valorBruto - 4000.03) * 0.14
      else
        1412.00 * 0.075 + (2666.68 - 1412.00) * 0.09 + (4000.03 - 2666.68) * 0.12
          + (7786.02 - 4000.03) * 0.14)"

section \<open>types.ts\<close>

text \<open>
  The calendar date of a day record is a \<^verbatim>\<open>Date\<close>; no calculation reads it, and
  it is kept as a year, a month and a day.
\<close>

datatype WeekDay = segunda | terca | quarta | quinta | sexta | sabado | domingo

datatype Escala = Escala6x1

record Settings =
  salarioMensal :: real
  horaEntradaPadrao :: string
  horaSaidaPadrao :: string
  intervaloPadraoHoras :: real
  folgaPadrao :: WeekDay
  escala :: Escala

record DayRecord =
  date :: "nat \<times> nat \<times> nat"
  entrada :: string
  saida :: string
  intervaloHoras :: real
  ehFolga :: bool
  ehFeriado :: bool

record MonthlySummary =
  horasNormais :: real
  horasExtra50 :: real
  horasExtra100 :: real
  dsrTotal :: real
  valorBruto :: real
  descontoINSS :: real
  valorLiquido :: real

section \<open>calculateMonthlySummary\<close>

text \<open>
  The five accumulators of the loop \<^verbatim>\<open>for (const day of days)\<close>, and one turn of it.
  A day whose clock strings do not parse ends the run with \<open>None\<close>: its \<^verbatim>\<open>NaN\<close>
  would reach the totals.
\<close>

record Acumuladores =
  horasNormaisTotal :: real
  horasExtra50Total :: real
  horasExtra100Total :: real
  diasRepouso :: real
  diasUteis :: real

fun acumular :: "real \<Rightarrow> Acumuladores \<Rightarrow> DayRecord list \<Rightarrow> Acumuladores option" where
  "acumular jornadaPadraoHoras a [] = Some a"
| "acumular jornadaPadraoHoras a (day # days) =
     (case calculateDailyResult (entrada day) (saida day) (intervaloHoras day)
             (ehFeriado day) (ehFolga day) jornadaPadraoHoras of
        None \<Rightarrow> None
      | Some resultado \<Rightarrow>
          acumular jornadaPadraoHoras
            (let a1 = a\<lparr>horasNormaisTotal :=
                          horasNormaisTotal a + DailyHoursResult.horasNormais resultado,
                        horasExtra50Total :=
                          horasExtra50Total a + DailyHoursResult.horasExtra50 resultado,
                        horasExtra100Total :=
                          horasExtra100Total a + DailyHoursResult.horasExtra100 resultado\<rparr>
             in if ehFolga day \<or> ehFeriado day
                then a1\<lparr>diasRepouso := diasRepouso a1 + 1\<rparr>
                else a1\<lparr>diasUteis := diasUteis a1 + 1\<rparr>)
            days)"

definition calculateMonthlySummary :: "DayRecord list \<Rightarrow> Settings \<Rightarrow> MonthlySummary option" where
  "calculateMonthlySummary days settings =
     (let jornadaPadraoHoras = 220 / 30;
          valorHora = salarioMensal settings / 220;
          valorHoraExtra50 = valorHora * 1.5;
          valorHoraExtra100 = valorHora * 2.0
      in case acumular jornadaPadraoHoras
                \<lparr>horasNormaisTotal = 0, horasExtra50Total = 0, horasExtra100Total = 0,
                 diasRepouso = 0, diasUteis = 0\<rparr> days of
           None \<Rightarrow> None
         | Some a \<Rightarrow>
             (let horasNormaisTotal' = Math_round (horasNormaisTotal a * 100) / 100;
                  horasExtra50Total' = Math_round (horasExtra50Total a * 100) / 100;
                  horasExtra100Total' = Math_round (horasExtra100Total a * 100) / 100;
                  dsrTotal' = calculateDSR horasExtra50Total' horasExtra100Total'
                                valorHoraExtra50 valorHoraExtra100 (diasRepouso a) (diasUteis a);
                  valorHorasExtras50 = horasExtra50Total' * valorHoraExtra50;
                  valorHorasExtras100 = horasExtra100Total' * valorHoraExtra100;
                  valorBruto' = salarioMensal settings + valorHorasExtras50
                                  + valorHorasExtras100 + dsrTotal';
                  descontoINSS' = calculateINSS valorBruto';
                  valorLiquido' = valorBruto' - descontoINSS'
              in Some \<lparr>horasNormais = horasNormaisTotal',
                       horasExtra50 = horasExtra50Total',
                       horasExtra100 = horasExtra100Total',
                       dsrTotal = Math_round (dsrTotal' * 100) / 100,
                       valorBruto = Math_round (valorBruto' * 100) / 100,
                       descontoINSS = Math_round (descontoINSS' * 100) / 100,
                       valorLiquido = Math_round (valorLiquido' * 100) / 100\<rparr>))"

section \<open>payroll.ts\<close>

definition calculateHourlyValue :: "real \<Rightarrow> real" where
  "calculateHourlyValue salario =
     (let valorHora = salario / 220 in Math_round (valorHora * 100) / 100)"

record Payroll =
  bruto :: real
  inss :: real
  liquido :: real

text \<open>
  The optional third argument is an \<open>option\<close>: \<open>None\<close> is \<^verbatim>\<open>undefined\<close>. The
  second and third parameters are \<^verbatim>\<open>salarioMensal\<close> and \<^verbatim>\<open>descontoINSS\<close> in the
  source, names that the records above use for their fields.
\<close>

definition calculateMonthlyPayroll :: "MonthlySummary \<Rightarrow> real \<Rightarrow> real option \<Rightarrow> Payroll" where
  "calculateMonthlyPayroll monthSummary salario desconto =
     (let valorHora = calculateHourlyValue salario;
          valorHoraExtra50 = valorHora * 1.5;
          valorHoraExtra100 = valorHora * 2.0;
          valorHorasExtras50 = horasExtra50 monthSummary * valorHoraExtra50;
          valorHorasExtras100 = horasExtra100 monthSummary * valorHoraExtra100;
          valorBruto' = salario + valorHorasExtras50 + valorHorasExtras100
                          + dsrTotal monthSummary;
          inss' = (case desconto of Some d \<Rightarrow> d | None \<Rightarrow> descontoINSS monthSummary);
          valorLiquido' = valorBruto' - inss'
      in \<lparr>bruto = Math_round (valorBruto' * 100) / 100,
          inss = Math_round (inss' * 100) / 100,
          liquido = Math_round (valorLiquido' * 100) / 100\<rparr>)"

section \<open>The withholding schedule as the specification words it\<close>

text \<open>
  The table of the specification gives each bracket by its inclusive upper bound and its
  marginal rate; a bracket starts where the one before it ends, and the first one has no
  lower bound of its own (\<open>None\<close>). The slice of \<open>gross\<close> within a bracket is the part
  of it between the two bounds, and the amount is the sum over the table of rate times
  slice. Nothing is rounded. For \<open>0 \<le> gross\<close> the first slice \<open>min gross upper\<close> is
  \<open>max 0 (min gross upper - 0)\<close>, the slice of a bracket that starts at zero.
\<close>

definition tabela_INSS :: "(real \<times> real) list" where
  "tabela_INSS = [(1412.00, 0.075), (2666.68, 0.09), (4000.03, 0.12), (7786.02, 0.14)]"

definition slice :: "real option \<Rightarrow> real \<Rightarrow> real \<Rightarrow> real" where
  "slice lower upper gross =
     (case lower of
        None \<Rightarrow> min gross upper
      | Some l \<Rightarrow> max 0 (min gross upper - l))"

fun progressive :: "real option \<Rightarrow> (real \<times> real) list \<Rightarrow> real \<Rightarrow> real" where
  "progressive lower [] gross = 0"
| "progressive lower ((upper, rate) # table) gross =
     rate * slice lower upper gross + progressive (Some upper) table gross"

definition calculateWithholding_spec :: "real \<Rightarrow> real" where
  "calculateWithholding_spec gross = progressive None tabela_INSS gross"

section \<open>Rounding and parsing\<close>

lemma Math_round_idem: "Math_round (Math_round x) = Math_round x"
  by (simp add: Math_round_def)

lemma digit_not_colon: "digit_value c = Some d \<Longrightarrow> c \<noteq> CHR '':''"
  by (auto simp: digit_value_def Let_def)

lemma parse_0800: "parseHourToMinutes ''08:00'' = Some 480"
  by (simp add: parseHourToMinutes_def Number_def digit_value_def)

lemma parse_0900: "parseHourToMinutes ''09:00'' = Some 540"
  by (simp add: parseHourToMinutes_def Number_def digit_value_def)

lemma parse_1200: "parseHourToMinutes ''12:00'' = Some 720"
  by (simp add: parseHourToMinutes_def Number_def digit_value_def)

lemma parse_1700: "parseHourToMinutes ''17:00'' = Some 1020"
  by (simp add: parseHourToMinutes_def Number_def digit_value_def)

lemma parse_1800: "parseHourToMinutes ''18:00'' = Some 1080"
  by (simp add: parseHourToMinutes_def Number_def digit_value_def)

lemma worked_0800_1700_1: "calculateWorkedMinutes ''08:00'' ''17:00'' 1 = Some 480"
  by (simp add: calculateWorkedMinutes_def parse_0800 parse_1700)

lemma worked_0800_1200_0: "calculateWorkedMinutes ''08:00'' ''12:00'' 0 = Some 240"
  by (simp add: calculateWorkedMinutes_def parse_0800 parse_1200)

lemma worked_0800_1800_0: "calculateWorkedMinutes ''08:00'' ''18:00'' 0 = Some 600"
  by (simp add: calculateWorkedMinutes_def parse_0800 parse_1800)

lemma hours_480: "minutesToDecimalHours 480 = 8"
  by (simp add: minutesToDecimalHours_def Math_round_def)

lemma hours_240: "minutesToDecimalHours 240 = 4"
  by (simp add: minutesToDecimalHours_def Math_round_def)

lemma hours_600: "minutesToDecimalHours 600 = 10"
  by (simp add: minutesToDecimalHours_def Math_round_def)

section \<open>Time arithmetic\<close>

text \<open>
  Every string of two digits, a colon and two digits parses, to the hours times 60 plus
  the minutes; no range is checked (\<^verbatim>\<open>29:75\<close> parses too).
\<close>

theorem parseHourToMinutes_HHmm:
  assumes "digit_value h1 = Some a" and "digit_value h2 = Some b"
    and "digit_value m1 = Some c" and "digit_value m2 = Some d"
  shows "parseHourToMinutes [h1, h2, CHR '':'', m1, m2]
           = Some (real (10 * a + b) * 60 + real (10 * c + d))"
  using assms digit_not_colon [OF assms(1)] digit_not_colon [OF assms(2)]
    digit_not_colon [OF assms(3)] digit_not_colon [OF assms(4)]
  by (simp add: parseHourToMinutes_def Number_def)

text \<open>The examples of the source: \<^verbatim>\<open>"23:59"\<close> is 1439 and \<^verbatim>\<open>"08:30"\<close> is 510.\<close>

theorem parseHourToMinutes_HHmm_witness:
  "parseHourToMinutes ''23:59'' = Some 1439 \<and> parseHourToMinutes ''08:30'' = Some 510"
  using parseHourToMinutes_HHmm [of "CHR ''2''" 2 "CHR ''3''" 3 "CHR ''5''" 5 "CHR ''9''" 9]
    parseHourToMinutes_HHmm [of "CHR ''0''" 0 "CHR ''8''" 8 "CHR ''3''" 3 "CHR ''0''" 0]
  by (simp add: digit_value_def)

text \<open>
  Claim C7. Whenever both clock strings parse, to \<open>a\<close> and \<open>b\<close> minutes,
  \<^verbatim>\<open>calculateWorkedMinutes\<close> is \<open>max 0 ((b - a) - intervaloHoras * 60)\<close>, for every break
  duration; and for all strings and breaks a number it returns is never negative. The
  function is total: no input makes it fail.
\<close>

theorem calculateWorkedMinutes_clamped:
  "(\<forall>a b. parseHourToMinutes e = Some a \<and> parseHourToMinutes s = Some b \<longrightarrow>
      calculateWorkedMinutes e s i = Some (max 0 ((b - a) - i * 60)))
   \<and> (\<forall>m. calculateWorkedMinutes e s i = Some m \<longrightarrow> 0 \<le> m)"
  by (auto simp: calculateWorkedMinutes_def Let_def split: option.splits)

text \<open>A break of two hours in a span of one: the result is 0, not \<open>- 60\<close>.\<close>

theorem calculateWorkedMinutes_clamped_witness:
  "calculateWorkedMinutes ''08:00'' ''09:00'' 2 = Some 0
   \<and> calculateWorkedMinutes ''08:00'' ''17:00'' 1 = Some 480"
  using calculateWorkedMinutes_clamped [of "''08:00''" "''09:00''" 2]
    calculateWorkedMinutes_clamped [of "''08:00''" "''17:00''" 1]
    parse_0800 parse_0900 parse_1700
  by simp

section \<open>The daily classifier\<close>

text \<open>
  Claim C1. With an empty clock-in or clock-out the result is all zero. Otherwise, with
  \<open>w\<close> the decimal hours of the worked minutes: on a holiday all of \<open>w\<close> is in
  \<open>horasExtra100\<close>, whatever the rest-day flag; else on a rest day all of \<open>w\<close> is in
  \<open>horasExtra50\<close>; else \<open>horasNormais = min w j\<close>, \<open>horasExtra50 = max 0 (w - j)\<close> and
  \<open>horasExtra100 = 0\<close>, for the standard daily hours \<open>j\<close>.
\<close>

theorem calculateDailyResult_classification:
  "(e = [] \<or> s = [] \<longrightarrow>
      calculateDailyResult e s i fer fol j =
        Some \<lparr>DailyHoursResult.horasNormais = 0, horasExtra50 = 0, horasExtra100 = 0\<rparr>)
   \<and> (e \<noteq> [] \<and> s \<noteq> [] \<and> calculateWorkedMinutes e s i = Some m \<longrightarrow>
        (let w = minutesToDecimalHours m in
         calculateDailyResult e s i fer fol j =
           Some (if fer then
                   \<lparr>DailyHoursResult.horasNormais = 0, horasExtra50 = 0, horasExtra100 = w\<rparr>
                 else if fol then
                   \<lparr>DailyHoursResult.horasNormais = 0, horasExtra50 = w, horasExtra100 = 0\<rparr>
                 else
                   \<lparr>DailyHoursResult.horasNormais = min w j,
                    horasExtra50 = max 0 (w - j), horasExtra100 = 0\<rparr>)))"
  by (simp add: calculateDailyResult_def Let_def min_def max_def)

text \<open>
  An empty clock-in on a holiday; a holiday that is also the rest day, 08:00 to 12:00; a
  rest day; and an ordinary day of 8 hours against 7.33.
\<close>

theorem calculateDailyResult_classification_witness:
  "calculateDailyResult [] ''17:00'' 1 True False (733 / 100) =
     Some \<lparr>DailyHoursResult.horasNormais = 0, horasExtra50 = 0, horasExtra100 = 0\<rparr>
   \<and> calculateDailyResult ''08:00'' ''12:00'' 0 True True (733 / 100) =
     Some \<lparr>DailyHoursResult.horasNormais = 0, horasExtra50 = 0, horasExtra100 = 4\<rparr>
   \<and> calculateDailyResult ''08:00'' ''12:00'' 0 False True (733 / 100) =
     Some \<lparr>DailyHoursResult.horasNormais = 0, horasExtra50 = 4, horasExtra100 = 0\<rparr>
   \<and> calculateDailyResult ''08:00'' ''17:00'' 1 False False (733 / 100) =
     Some \<lparr>DailyHoursResult.horasNormais = 733 / 100, horasExtra50 = 67 / 100,
           horasExtra100 = 0\<rparr>"
  using calculateDailyResult_classification [of "[]" "''17:00''" 1 True False "733 / 100" 0]
    calculateDailyResult_classification [of "''08:00''" "''12:00''" 0 True True "733 / 100" 240]
    calculateDailyResult_classification [of "''08:00''" "''12:00''" 0 False True "733 / 100" 240]
    calculateDailyResult_classification [of "''08:00''" "''17:00''" 1 False False "733 / 100" 480]
    worked_0800_1200_0 worked_0800_1700_1 hours_240 hours_480
  by simp



section \<open>The DSR calculator\<close>

text \<open>
  Claim C4. \<^verbatim>\<open>calculateDSR\<close> is the overtime value times rest days over working days,
  rounded to 2 decimals, and exactly 0 when there are no working days or no rest days;
  it is defined for all six arguments.
\<close>

theorem calculateDSR_formula:
  "calculateDSR h50 h100 r50 r100 restDays workingDays =
     (if workingDays = 0 \<or> restDays = 0 then 0
      else Math_round ((h50 * r50 + h100 * r100) * (restDays / workingDays) * 100) / 100)"
  by (simp add: calculateDSR_def Let_def)

text \<open>
  No rest day, no working day, and 10 hours at 15.00 with 4 rest days to 26 working
  days: \<open>150 * 4 / 26 = 23.0769...\<close>, rounded to 23.08.
\<close>

theorem calculateDSR_formula_witness:
  "calculateDSR 10 2 15 20 0 26 = 0 \<and> calculateDSR 10 2 15 20 4 0 = 0
   \<and> calculateDSR 10 0 15 20 4 26 = 2308 / 100"
  using calculateDSR_formula [of 10 2 15 20 0 26] calculateDSR_formula [of 10 2 15 20 4 0]
    calculateDSR_formula [of 10 0 15 20 4 26]
  by (simp add: Math_round_def)

section \<open>The withholding calculator\<close>

text \<open>
  The five branches of \<^verbatim>\<open>calculateINSS\<close> as one sum of rate times slice.
\<close>

lemma calculateINSS_slices:
  "calculateINSS g =
     0.075 * min g 1412.00
     + 0.09 * max 0 (min g 2666.68 - 1412.00)
     + 0.12 * max 0 (min g 4000.03 - 2666.68)
     + 0.14 * max 0 (min g 7786.02 - 4000.03)"
proof -
  consider "g \<le> 1412.00" | "1412.00 < g" "g \<le> 2666.68" | "2666.68 < g" "g \<le> 4000.03"
    | "4000.03 < g" "g \<le> 7786.02" | "7786.02 < g"
    by linarith
  then show ?thesis
  proof cases
    case 1
    then show ?thesis by (simp add: calculateINSS_def)
  next
    case 2
    then show ?thesis by (simp add: calculateINSS_def)
  next
    case 3
    then show ?thesis by (simp add: calculateINSS_def)
  next
    case 4
    then show ?thesis by (simp add: calculateINSS_def)
  next
    case 5
    then show ?thesis by (simp add: calculateINSS_def)
  qed
qed

lemma calculateWithholding_spec_slices:
  "calculateWithholding_spec g =
     0.075 * min g 1412.00
     + 0.09 * max 0 (min g 2666.68 - 1412.00)
     + 0.12 * max 0 (min g 4000.03 - 2666.68)
     + 0.14 * max 0 (min g 7786.02 - 4000.03)"
  by (simp add: calculateWithholding_spec_def tabela_INSS_def slice_def)

lemma slice_from_zero: "0 \<le> g \<Longrightarrow> 0 \<le> u \<Longrightarrow> slice None u g = slice (Some 0) u g"
  by (simp add: slice_def)

lemma weighted_sum_mono:
  fixes A1 :: real
  assumes "A1 \<le> A2" "B1 \<le> B2" "C1 \<le> C2" "D1 \<le> D2"
  shows "0.075 * A1 + 0.09 * B1 + 0.12 * C1 + 0.14 * D1
         \<le> 0.075 * A2 + 0.09 * B2 + 0.12 * C2 + 0.14 * D2"
  using assms by simp

text \<open>
  Claim C2. \<^verbatim>\<open>calculateINSS\<close> is the progressive schedule over the four brackets
  (7.5% up to 1412.00, 9% up to 2666.68, 12% up to 4000.03, 14% up to 7786.02): each
  rate on the slice of gross within its bracket, the lower brackets taxed in full,
  nothing rounded; and above 7786.02 the amount is the one owed at 7786.02.
\<close>

theorem calculateINSS_progressive:
  "calculateINSS g = calculateWithholding_spec g
   \<and> (7786.02 < g \<longrightarrow> calculateINSS g = calculateINSS 7786.02)"
proof
  show "calculateINSS g = calculateWithholding_spec g"
    by (simp only: calculateINSS_slices calculateWithholding_spec_slices)
  show "7786.02 < g \<longrightarrow> calculateINSS g = calculateINSS 7786.02"
    by (simp add: calculateINSS_def)
qed

text \<open>
  A gross of 3000 lies in the third bracket: \<open>105.90 + 112.9212 + 333.32 * 0.12\<close>; a
  gross of 10000 is above the cap.
\<close>

theorem calculateINSS_progressive_witness:
  "calculateINSS 3000 = calculateWithholding_spec 3000
   \<and> calculateWithholding_spec 3000 = 2588196 / 10000
   \<and> calculateINSS 10000 = calculateINSS 7786.02
   \<and> calculateINSS 7786.02 = 9088618 / 10000"
  using calculateINSS_progressive [of 3000] calculateINSS_progressive [of 10000]
  by (simp add: calculateINSS_def calculateWithholding_spec_def tabela_INSS_def slice_def)

text \<open>
  Claim C5, as amended. \<^verbatim>\<open>calculateINSS(1412.00)\<close> is 105.90, that is
  \<open>1412.00 * 0.075\<close>, and \<^verbatim>\<open>calculateINSS(2666.68)\<close> is 218.8212, that is
  \<open>105.90 + 1254.68 * 0.09\<close>, the sum of the first two brackets, not rounded.
\<close>

theorem calculateINSS_bracket_bounds:
  "calculateINSS 1412.00 = 105.90 \<and> calculateINSS 2666.68 = 218.8212"
  by (simp add: calculateINSS_def)

text \<open>The claim as first stated gives 228.69 for the second value; the code does not.\<close>

theorem calculateINSS_bracket_bounds_counterexample:
  "\<not> (calculateINSS 1412.00 = 105.90 \<and> calculateINSS 2666.68 = 228.69)"
  by (simp add: calculateINSS_def)

text \<open>
  Claim C6. The withholding is monotone: a smaller gross never owes more than a larger
  one.
\<close>

theorem calculateINSS_monotone:
  "g1 < g2 \<Longrightarrow> calculateINSS g1 \<le> calculateINSS g2"
proof -
  assume lt: "g1 < g2"
  have a: "min g1 u \<le> min g2 u" for u
    using lt by simp
  have b: "max 0 (min g1 u - l) \<le> max 0 (min g2 u - l)" for u l
    using a [of u] by simp
  show ?thesis
    unfolding calculateINSS_slices by (rule weighted_sum_mono) (rule a b)+
qed

text \<open>Across a bracket boundary, and above the cap where the amounts are equal.\<close>

theorem calculateINSS_monotone_witness:
  "calculateINSS 1000 \<le> calculateINSS 1500 \<and> calculateINSS 1000 = 75
   \<and> calculateINSS 1500 = 11382 / 100
   \<and> calculateINSS 8000 \<le> calculateINSS 9000"
  using calculateINSS_monotone [of 1000 1500] calculateINSS_monotone [of 8000 9000]
  by (simp add: calculateINSS_def)

section \<open>The monthly aggregator\<close>

text \<open>
  The aggregator returns a summary for every list of days whose recorded clock strings
  parse; days with an empty clock-in or clock-out are not parsed at all.
\<close>

lemma calculateDailyResult_defined:
  "e = [] \<or> s = [] \<or> calculateWorkedMinutes e s i \<noteq> None
   \<Longrightarrow> \<exists>r. calculateDailyResult e s i fer fol j = Some r"
  by (auto simp: calculateDailyResult_def Let_def)

lemma acumular_defined:
  "\<forall>d \<in> set days. entrada d = [] \<or> saida d = []
       \<or> calculateWorkedMinutes (entrada d) (saida d) (intervaloHoras d) \<noteq> None
   \<Longrightarrow> \<exists>a'. acumular j a days = Some a'"
proof (induction days arbitrary: a)
  case Nil
  then show ?case by simp
next
  case (Cons d days)
  from Cons.prems have "entrada d = [] \<or> saida d = []
       \<or> calculateWorkedMinutes (entrada d) (saida d) (intervaloHoras d) \<noteq> None"
    by simp
  then obtain r where r: "calculateDailyResult (entrada d) (saida d) (intervaloHoras d)
             (ehFeriado d) (ehFolga d) j = Some r"
    using calculateDailyResult_defined by blast
  from Cons.prems have "\<forall>d \<in> set days. entrada d = [] \<or> saida d = []
       \<or> calculateWorkedMinutes (entrada d) (saida d) (intervaloHoras d) \<noteq> None"
    by simp
  from Cons.IH [OF this] show ?case by (simp add: r)
qed

text \<open>
  So \<^verbatim>\<open>calculateMonthlySummary\<close> returns a summary whenever each day has an empty
  clock-in or clock-out or clock strings that parse.
\<close>

theorem calculateMonthlySummary_defined:
  "\<forall>d \<in> set days. entrada d = [] \<or> saida d = []
       \<or> calculateWorkedMinutes (entrada d) (saida d) (intervaloHoras d) \<noteq> None
   \<Longrightarrow> \<exists>r. calculateMonthlySummary days settings = Some r"
  using acumular_defined [of days "220 / 30"]
  by (fastforce simp add: calculateMonthlySummary_def Let_def split: option.splits)

text \<open>A day without clock strings and a day from 08:00 to 17:00.\<close>

theorem calculateMonthlySummary_defined_witness:
  "\<exists>r. calculateMonthlySummary
         [\<lparr>date = (2026, 1, 4), entrada = [], saida = [], intervaloHoras = 1,
           ehFolga = True, ehFeriado = False\<rparr>,
          \<lparr>date = (2026, 1, 5), entrada = ''08:00'', saida = ''17:00'', intervaloHoras = 1,
           ehFolga = False, ehFeriado = False\<rparr>]
         \<lparr>salarioMensal = 2200, horaEntradaPadrao = ''08:00'', horaSaidaPadrao = ''17:00'',
          intervaloPadraoHoras = 1, folgaPadrao = domingo, escala = Escala6x1\<rparr> = Some r"
  by (rule calculateMonthlySummary_defined) (simp add: worked_0800_1700_1)

text \<open>
  A month of one record: a rest day worked from 08:00 to 18:00 without a break, on a
  monthly salary of 1000.00. The 10 hours are all at 50%; with one rest day and no
  working day the DSR is 0; the hourly value is \<open>1000 / 220\<close>, so the gross is
  \<open>1000 + 10 * (1000 / 220 * 1.5) = 1068.1818...\<close>, rounded to 1068.18.
\<close>

lemma daily_0800_1800_folga:
  "calculateDailyResult ''08:00'' ''18:00'' 0 False True j =
     Some \<lparr>DailyHoursResult.horasNormais = 0, horasExtra50 = 10, horasExtra100 = 0\<rparr>"
  by (simp add: calculateDailyResult_def worked_0800_1800_0 hours_600)

lemma acumular_example:
  "acumular j \<lparr>horasNormaisTotal = 0, horasExtra50Total = 0, horasExtra100Total = 0,
                diasRepouso = 0, diasUteis = 0\<rparr>
     [\<lparr>date = (2026, 1, 4), entrada = ''08:00'', saida = ''18:00'', intervaloHoras = 0,
       ehFolga = True, ehFeriado = False\<rparr>]
   = Some \<lparr>horasNormaisTotal = 0, horasExtra50Total = 10, horasExtra100Total = 0,
            diasRepouso = 1, diasUteis = 0\<rparr>"
  by (simp add: daily_0800_1800_folga)

lemma calculateDSR_no_working_day: "calculateDSR h50 h100 r50 r100 1 0 = 0"
  by (simp add: calculateDSR_def)

lemma calculateINSS_example: "calculateINSS (11750 / 11) = 88125 / 1100"
  by (simp add: calculateINSS_def)

lemma calculateMonthlySummary_example:
  "calculateMonthlySummary
     [\<lparr>date = (2026, 1, 4), entrada = ''08:00'', saida = ''18:00'', intervaloHoras = 0,
       ehFolga = True, ehFeriado = False\<rparr>]
     \<lparr>salarioMensal = 1000, horaEntradaPadrao = ''08:00'', horaSaidaPadrao = ''17:00'',
      intervaloPadraoHoras = 1, folgaPadrao = domingo, escala = Escala6x1\<rparr>
   = Some \<lparr>horasNormais = 0, horasExtra50 = 10, horasExtra100 = 0, dsrTotal = 0,
           valorBruto = 106818 / 100, descontoINSS = 8011 / 100, valorLiquido = 98807 / 100\<rparr>"
  unfolding calculateMonthlySummary_def acumular_example Let_def
  by (simp add: calculateDSR_no_working_day calculateINSS_example Math_round_def)

text \<open>
  Claim C8. Every field of a summary that \<^verbatim>\<open>calculateMonthlySummary\<close> returns is
  rounded to 2 decimals: rounding it again gives the same number. This holds for every
  list of days and every settings value.
\<close>

theorem calculateMonthlySummary_rounded:
  assumes "calculateMonthlySummary days settings = Some r"
  shows "Math_round (horasNormais r * 100) / 100 = horasNormais r
       \<and> Math_round (horasExtra50 r * 100) / 100 = horasExtra50 r
       \<and> Math_round (horasExtra100 r * 100) / 100 = horasExtra100 r
       \<and> Math_round (dsrTotal r * 100) / 100 = dsrTotal r
       \<and> Math_round (valorBruto r * 100) / 100 = valorBruto r
       \<and> Math_round (descontoINSS r * 100) / 100 = descontoINSS r
       \<and> Math_round (valorLiquido r * 100) / 100 = valorLiquido r"
  using assms
  by (auto simp add: calculateMonthlySummary_def Let_def Math_round_idem split: option.splits)

text \<open>The month above: gross 1068.18, withholding 80.11, net 988.07.\<close>

theorem calculateMonthlySummary_rounded_witness:
  "calculateMonthlySummary
     [\<lparr>date = (2026, 1, 4), entrada = ''08:00'', saida = ''18:00'', intervaloHoras = 0,
       ehFolga = True, ehFeriado = False\<rparr>]
     \<lparr>salarioMensal = 1000, horaEntradaPadrao = ''08:00'', horaSaidaPadrao = ''17:00'',
      intervaloPadraoHoras = 1, folgaPadrao = domingo, escala = Escala6x1\<rparr>
   = Some \<lparr>horasNormais = 0, horasExtra50 = 10, horasExtra100 = 0, dsrTotal = 0,
           valorBruto = 106818 / 100, descontoINSS = 8011 / 100, valorLiquido = 98807 / 100\<rparr>
   \<and> Math_round (106818 / 100 * 100) / 100 = 106818 / 100
   \<and> Math_round (8011 / 100 * 100) / 100 = 8011 / 100
   \<and> Math_round (98807 / 100 * 100) / 100 = 98807 / 100"
proof -
  from calculateMonthlySummary_rounded [OF calculateMonthlySummary_example]
  have "Math_round (106818 / 100 * 100) / 100 = 106818 / 100
      \<and> Math_round (8011 / 100 * 100) / 100 = 8011 / 100
      \<and> Math_round (98807 / 100 * 100) / 100 = 98807 / 100"
    by simp
  with calculateMonthlySummary_example show ?thesis
    by (rule conjI)
qed

section \<open>Payroll valuation\<close>

text \<open>
  Claim C10. The gross that \<^verbatim>\<open>calculateMonthlyPayroll\<close> returns does not depend on
  the withholding override: for the same summary and salary, any two overrides (absent
  ones too) give the same \<open>bruto\<close>.
\<close>

theorem calculateMonthlyPayroll_bruto_independent:
  "bruto (calculateMonthlyPayroll summary salario d1)
     = bruto (calculateMonthlyPayroll summary salario d2)"
  by (simp add: calculateMonthlyPayroll_def Let_def)

text \<open>
  An override of 50.00 against none: the gross stays 2440.00, while the withholding
  goes from 200.00 to 50.00 and the net from 2240.00 to 2390.00.
\<close>

theorem calculateMonthlyPayroll_bruto_independent_witness:
  "bruto (calculateMonthlyPayroll
       \<lparr>horasNormais = 176, horasExtra50 = 10, horasExtra100 = 2, dsrTotal = 50,
        valorBruto = 2450, descontoINSS = 200, valorLiquido = 2250\<rparr> 2200 None) = 2440
   \<and> calculateMonthlyPayroll
       \<lparr>horasNormais = 176, horasExtra50 = 10, horasExtra100 = 2, dsrTotal = 50,
        valorBruto = 2450, descontoINSS = 200, valorLiquido = 2250\<rparr> 2200 (Some 50)
     = \<lparr>bruto = 2440, inss = 50, liquido = 2390\<rparr>"
  using calculateMonthlyPayroll_bruto_independent
    [of "\<lparr>horasNormais = 176, horasExtra50 = 10, horasExtra100 = 2, dsrTotal = 50,
         valorBruto = 2450, descontoINSS = 200, valorLiquido = 2250\<rparr>" 2200 None "Some 50"]
  by (simp add: calculateMonthlyPayroll_def calculateHourlyValue_def Let_def Math_round_def)

text \<open>
  Claim C3 says that the payroll recomputation, run on the summary of the aggregator
  with the same salary and no override, returns the gross of the summary. For the month
  above it does not: the aggregator values the 10 hours at \<open>1000 / 220 * 1.5\<close> and has
  1068.18, while \<^verbatim>\<open>calculateMonthlyPayroll\<close> takes the hourly value from
  \<^verbatim>\<open>calculateHourlyValue\<close>, which rounds it to 4.55, and returns 1068.25.
\<close>

theorem calculateMonthlyPayroll_gross_differs:
  "calculateMonthlySummary
     [\<lparr>date = (2026, 1, 4), entrada = ''08:00'', saida = ''18:00'', intervaloHoras = 0,
       ehFolga = True, ehFeriado = False\<rparr>]
     \<lparr>salarioMensal = 1000, horaEntradaPadrao = ''08:00'', horaSaidaPadrao = ''17:00'',
      intervaloPadraoHoras = 1, folgaPadrao = domingo, escala = Escala6x1\<rparr>
   = Some \<lparr>horasNormais = 0, horasExtra50 = 10, horasExtra100 = 0, dsrTotal = 0,
           valorBruto = 106818 / 100, descontoINSS = 8011 / 100, valorLiquido = 98807 / 100\<rparr>
   \<and> calculateMonthlyPayroll
       \<lparr>horasNormais = 0, horasExtra50 = 10, horasExtra100 = 0, dsrTotal = 0,
        valorBruto = 106818 / 100, descontoINSS = 8011 / 100, valorLiquido = 98807 / 100\<rparr>
       1000 None
     = \<lparr>bruto = 106825 / 100, inss = 8011 / 100, liquido = 98814 / 100\<rparr>"
proof
  show "calculateMonthlySummary
     [\<lparr>date = (2026, 1, 4), entrada = ''08:00'', saida = ''18:00'', intervaloHoras = 0,
       ehFolga = True, ehFeriado = False\<rparr>]
     \<lparr>salarioMensal = 1000, horaEntradaPadrao = ''08:00'', horaSaidaPadrao = ''17:00'',
      intervaloPadraoHoras = 1, folgaPadrao = domingo, escala = Escala6x1\<rparr>
   = Some \<lparr>horasNormais = 0, horasExtra50 = 10, horasExtra100 = 0, dsrTotal = 0,
           valorBruto = 106818 / 100, descontoINSS = 8011 / 100, valorLiquido = 98807 / 100\<rparr>"
    by (rule calculateMonthlySummary_example)
  show "calculateMonthlyPayroll
       \<lparr>horasNormais = 0, horasExtra50 = 10, horasExtra100 = 0, dsrTotal = 0,
        valorBruto = 106818 / 100, descontoINSS = 8011 / 100, valorLiquido = 98807 / 100\<rparr>
       1000 None
     = \<lparr>bruto = 106825 / 100, inss = 8011 / 100, liquido = 98814 / 100\<rparr>"
    by (simp add: calculateMonthlyPayroll_def calculateHourlyValue_def Let_def Math_round_def)
qed

text \<open>
  The two gross figures part only through the hourly value. The gross of a summary is
  the salary plus the rounded overtime hours at the unrounded rates plus the DSR; the
  DSR is already rounded when the aggregator rounds it again.
\<close>

lemma calculateDSR_rounded:
  "Math_round (calculateDSR h50 h100 r50 r100 rd wd * 100) / 100
     = calculateDSR h50 h100 r50 r100 rd wd"
  by (simp add: calculateDSR_def Let_def Math_round_idem Math_round_def)

lemma valorBruto_from_fields:
  assumes "calculateMonthlySummary days settings = Some summary"
  shows "valorBruto summary =
           Math_round ((salarioMensal settings
                        + horasExtra50 summary * (salarioMensal settings / 220 * 1.5)
                        + horasExtra100 summary * (salarioMensal settings / 220 * 2.0)
                        + dsrTotal summary) * 100) / 100"
proof (cases "acumular (220 / 30)
                \<lparr>horasNormaisTotal = 0, horasExtra50Total = 0, horasExtra100Total = 0,
                 diasRepouso = 0, diasUteis = 0\<rparr> days")
  case None
  with assms show ?thesis
    by (simp add: calculateMonthlySummary_def)
next
  case (Some a)
  with assms show ?thesis
    by (auto simp add: calculateMonthlySummary_def Let_def calculateDSR_rounded)
qed

text \<open>
  When the salary divided by 220 is a whole number of cents, so that
  \<^verbatim>\<open>calculateHourlyValue\<close> changes nothing, \<^verbatim>\<open>calculateMonthlyPayroll\<close> returns the
  gross of the summary, with or without an override.
\<close>

theorem calculateMonthlyPayroll_agrees_exact_rate:
  assumes "calculateMonthlySummary days settings = Some summary"
    and "calculateHourlyValue (salarioMensal settings) = salarioMensal settings / 220"
  shows "bruto (calculateMonthlyPayroll summary (salarioMensal settings) d) = valorBruto summary"
  unfolding calculateMonthlyPayroll_def Let_def assms(2) valorBruto_from_fields [OF assms(1)]
  by simp

text \<open>
  The same rest day on a salary of 2200.00, an hourly value of 10.00: the gross is
  \<open>2200 + 10 * 15 = 2350.00\<close> in both.
\<close>

lemma calculateINSS_2350: "calculateINSS 2350 = 19032 / 100"
  by (simp add: calculateINSS_def)

lemma calculateMonthlySummary_example_2200:
  "calculateMonthlySummary
     [\<lparr>date = (2026, 1, 4), entrada = ''08:00'', saida = ''18:00'', intervaloHoras = 0,
       ehFolga = True, ehFeriado = False\<rparr>]
     \<lparr>salarioMensal = 2200, horaEntradaPadrao = ''08:00'', horaSaidaPadrao = ''17:00'',
      intervaloPadraoHoras = 1, folgaPadrao = domingo, escala = Escala6x1\<rparr>
   = Some \<lparr>horasNormais = 0, horasExtra50 = 10, horasExtra100 = 0, dsrTotal = 0,
           valorBruto = 2350, descontoINSS = 19032 / 100, valorLiquido = 215968 / 100\<rparr>"
  unfolding calculateMonthlySummary_def acumular_example Let_def
  by (simp add: calculateDSR_no_working_day calculateINSS_2350 Math_round_def)

theorem calculateMonthlyPayroll_agrees_exact_rate_witness:
  "bruto (calculateMonthlyPayroll
       \<lparr>horasNormais = 0, horasExtra50 = 10, horasExtra100 = 0, dsrTotal = 0,
        valorBruto = 2350, descontoINSS = 19032 / 100, valorLiquido = 215968 / 100\<rparr>
       2200 None) = 2350"
proof -
  have rate: "calculateHourlyValue 2200 = 2200 / 220"
    by (simp add: calculateHourlyValue_def Math_round_def)
  from calculateMonthlyPayroll_agrees_exact_rate
    [OF calculateMonthlySummary_example_2200, of None] rate
  show ?thesis by simp
qed

end
